theory Spec2Isabelle
  imports Main "HOL-Library.Word" "HOL-Library.Sublist"
begin

unbundle bit_operations_syntax

section \<open>Text and payloads\<close>

text \<open>
  A Python \<open>str\<close> is a sequence of Unicode code points, and \<open>len\<close>, slicing and
  comparison work on code points. It is modelled as a list of natural numbers; \<open>u\<close>
  turns an ASCII literal into that form. The two non-ASCII characters of the source are
  the horizontal ellipsis (U+2026) and the rightwards arrow (U+2192).
\<close>

type_synonym pystr = "nat list"

definition u :: "string \<Rightarrow> pystr" where
  "u s = map of_char s"

definition ellipsis :: nat where
  "ellipsis = 8230"

definition arrow :: nat where
  "arrow = 8594"

text \<open>\<open>d.get(key, default)\<close> on a key that may be absent.\<close>

definition get_or :: "'a option \<Rightarrow> 'a \<Rightarrow> 'a" where
  "get_or v d = (case v of None \<Rightarrow> d | Some x \<Rightarrow> x)"

text \<open>
  The hook payload, as the module docstring of \<open>hook.py\<close> lays it out. Every key may be
  absent (\<open>None\<close>); a key that is present holds a value of its documented type.
\<close>

record patch =
  newStart :: "int option"
  newLines :: "int option"

record sub_edit =
  se_file_path :: "pystr option"
  se_old_string :: "pystr option"
  se_new_string :: "pystr option"

record tool_input =
  ti_file_path :: "pystr option"
  ti_path :: "pystr option"
  ti_old_string :: "pystr option"
  ti_new_string :: "pystr option"
  ti_content :: "pystr option"
  ti_file_text :: "pystr option"
  ti_edits :: "sub_edit list option"
  ti_changes :: "sub_edit list option"

record tool_response =
  structuredPatch :: "patch list option"

record event =
  ev_tool_name :: "pystr option"
  ev_tool_input :: "tool_input option"
  ev_tool_response :: "tool_response option"
  ev_transcript_path :: "pystr option"
  ev_tool_use_id :: "pystr option"
  ev_session_id :: "pystr option"

definition empty_input :: tool_input where
  "empty_input = \<lparr>ti_file_path = None, ti_path = None, ti_old_string = None,
     ti_new_string = None, ti_content = None, ti_file_text = None, ti_edits = None,
     ti_changes = None\<rparr>"

definition empty_response :: tool_response where
  "empty_response = \<lparr>structuredPatch = None\<rparr>"

section \<open>Line ranges\<close>

text \<open>
  \<open>extract_line_numbers\<close>: the range of the first structured-patch entry, with
  \<open>newLines\<close> defaulting to 0.
\<close>

definition extract_line_numbers :: "event \<Rightarrow> int option \<times> int option" where
  "extract_line_numbers data =
     (let tool_response = get_or (ev_tool_response data) empty_response;
          patches = get_or (structuredPatch tool_response) []
      in case patches of
           [] \<Rightarrow> (None, None)
         | p # _ \<Rightarrow>
             (case newStart p of
                Some start \<Rightarrow> (Some start, Some (start + max (get_or (newLines p) 0 - 1) 0))
              | None \<Rightarrow> (None, None)))"

text \<open>
  The range computed inline in the \<open>MultiEdit\<close> branch of \<open>extract_edits\<close> for the
  sub-edit of index \<open>i\<close>, with \<open>newLines\<close> defaulting to 1.
\<close>

definition multiedit_range :: "patch list \<Rightarrow> nat \<Rightarrow> int option \<times> int option" where
  "multiedit_range patches i =
     (if i < length patches then
        (let p = patches ! i in
           case newStart p of
             None \<Rightarrow> (None, None)
           | Some start \<Rightarrow> (Some start, Some (start + max (get_or (newLines p) 1 - 1) 0)))
      else (None, None))"

definition patch_event :: "patch list \<Rightarrow> event" where
  "patch_event ps = \<lparr>ev_tool_name = None, ev_tool_input = None,
     ev_tool_response = Some \<lparr>structuredPatch = Some ps\<rparr>, ev_transcript_path = None,
     ev_tool_use_id = None, ev_session_id = None\<rparr>"

section \<open>Whitespace, splitting and joining\<close>

text \<open>
  The characters for which \<open>str.isspace\<close> holds; \<open>str.split()\<close>, \<open>str.strip()\<close> and the
  regular-expression class \<open>\s\<close> all use this set.
\<close>

definition is_space :: "nat \<Rightarrow> bool" where
  "is_space c \<longleftrightarrow>
     (9 \<le> c \<and> c \<le> 13) \<or> (28 \<le> c \<and> c \<le> 32) \<or> c = 133 \<or> c = 160 \<or> c = 5760
     \<or> (8192 \<le> c \<and> c \<le> 8202) \<or> c = 8232 \<or> c = 8233 \<or> c = 8239 \<or> c = 8287
     \<or> c = 12288"

fun split_ws :: "pystr \<Rightarrow> pystr \<Rightarrow> pystr list" where
  "split_ws w [] = (if w = [] then [] else [w])"
| "split_ws w (c # cs) =
     (if is_space c then (if w = [] then split_ws [] cs else w # split_ws [] cs)
      else split_ws (w @ [c]) cs)"

definition py_split :: "pystr \<Rightarrow> pystr list" where
  "py_split s = split_ws [] s"

fun py_join :: "pystr \<Rightarrow> pystr list \<Rightarrow> pystr" where
  "py_join sep [] = []"
| "py_join sep [x] = x"
| "py_join sep (x # y # ys) = x @ sep @ py_join sep (y # ys)"

section \<open>SHA-256 of the UTF-8 encoding\<close>

text \<open>
  \<open>hashlib.sha256(s.encode()).hexdigest()\<close>: the UTF-8 bytes of the code points, the
  padding and compression function of FIPS 180-4, and the digest as 64 lower-case
  hexadecimal digits. Text is taken to consist of Unicode scalar values, which
  \<open>str.encode\<close> always encodes.
\<close>

type_synonym w32 = "32 word"

definition utf8_char :: "nat \<Rightarrow> nat list" where
  "utf8_char c =
     (if c < 128 then [c]
      else if c < 2048 then [192 + c div 64, 128 + c mod 64]
      else if c < 65536 then [224 + c div 4096, 128 + (c div 64) mod 64, 128 + c mod 64]
      else [240 + (c div 262144) mod 8, 128 + (c div 4096) mod 64, 128 + (c div 64) mod 64,
            128 + c mod 64])"

definition encode :: "pystr \<Rightarrow> nat list" where
  "encode s = concat (map utf8_char s)"

definition sha_k :: "w32 list" where
  "sha_k = [
   1116352408, 1899447441, 3049323471, 3921009573, 961987163, 1508970993, 2453635748, 2870763221,
   3624381080, 310598401, 607225278, 1426881987, 1925078388, 2162078206, 2614888103, 3248222580,
   3835390401, 4022224774, 264347078, 604807628, 770255983, 1249150122, 1555081692, 1996064986,
   2554220882, 2821834349, 2952996808, 3210313671, 3336571891, 3584528711, 113926993, 338241895,
   666307205, 773529912, 1294757372, 1396182291, 1695183700, 1986661051, 2177026350, 2456956037,
   2730485921, 2820302411, 3259730800, 3345764771, 3516065817, 3600352804, 4094571909, 275423344,
   430227734, 506948616, 659060556, 883997877, 958139571, 1322822218, 1537002063, 1747873779,
   1955562222, 2024104815, 2227730452, 2361852424, 2428436474, 2756734187, 3204031479, 3329325298]"

type_synonym sha_state = "w32 \<times> w32 \<times> w32 \<times> w32 \<times> w32 \<times> w32 \<times> w32 \<times> w32"

definition sha_init :: sha_state where
  "sha_init = (1779033703, 3144134277, 1013904242, 2773480762,
               1359893119, 2600822924, 528734635, 1541459225)"

definition sha_pad :: "nat list \<Rightarrow> nat list" where
  "sha_pad bs =
     (let n = length bs; k = (119 - n mod 64) mod 64; bits = 8 * n
      in bs @ [128] @ replicate k 0 @ map (\<lambda>i. (bits div 256 ^ (7 - i)) mod 256) [0..<8])"

fun sha_blocks :: "nat \<Rightarrow> nat list \<Rightarrow> nat list list" where
  "sha_blocks 0 bs = []"
| "sha_blocks (Suc n) bs = take 64 bs # sha_blocks n (drop 64 bs)"

definition be_word :: "nat list \<Rightarrow> w32" where
  "be_word bs = word_of_nat (foldl (\<lambda>a b. 256 * a + b) 0 bs)"

definition small_sigma0 :: "w32 \<Rightarrow> w32" where
  "small_sigma0 x = word_rotr 7 x XOR word_rotr 18 x XOR drop_bit 3 x"

definition small_sigma1 :: "w32 \<Rightarrow> w32" where
  "small_sigma1 x = word_rotr 17 x XOR word_rotr 19 x XOR drop_bit 10 x"

definition big_sigma0 :: "w32 \<Rightarrow> w32" where
  "big_sigma0 x = word_rotr 2 x XOR word_rotr 13 x XOR word_rotr 22 x"

definition big_sigma1 :: "w32 \<Rightarrow> w32" where
  "big_sigma1 x = word_rotr 6 x XOR word_rotr 11 x XOR word_rotr 25 x"

definition sha_extend :: "w32 list \<Rightarrow> nat \<Rightarrow> w32 list" where
  "sha_extend w i = w @ [small_sigma1 (w ! (i - 2)) + w ! (i - 7)
                         + small_sigma0 (w ! (i - 15)) + w ! (i - 16)]"

definition sha_schedule :: "nat list \<Rightarrow> w32 list" where
  "sha_schedule block =
     foldl sha_extend (map (\<lambda>i. be_word (take 4 (drop (4 * i) block))) [0..<16]) [16..<64]"

definition sha_round :: "w32 list \<Rightarrow> sha_state \<Rightarrow> nat \<Rightarrow> sha_state" where
  "sha_round w st i =
     (case st of (a, b, c, d, e, f, g, h) \<Rightarrow>
        (let t1 = h + big_sigma1 e + ((e AND f) XOR (NOT e AND g)) + sha_k ! i + w ! i;
             t2 = big_sigma0 a + ((a AND b) XOR (a AND c) XOR (b AND c))
         in (t1 + t2, a, b, c, d + t1, e, f, g)))"

definition sha_compress :: "sha_state \<Rightarrow> nat list \<Rightarrow> sha_state" where
  "sha_compress st block =
     (case st of (a, b, c, d, e, f, g, h) \<Rightarrow>
        (case foldl (sha_round (sha_schedule block)) st [0..<64] of
           (a', b', c', d', e', f', g', h') \<Rightarrow>
             (a + a', b + b', c + c', d + d', e + e', f + f', g + g', h + h')))"

definition hex_digit :: "nat \<Rightarrow> nat" where
  "hex_digit d = (if d < 10 then 48 + d else 87 + d)"

definition hex_word :: "w32 \<Rightarrow> pystr" where
  "hex_word w = map (\<lambda>i. hex_digit ((unat w div 16 ^ (7 - i)) mod 16)) [0..<8]"

definition sha256_hexdigest :: "nat list \<Rightarrow> pystr" where
  "sha256_hexdigest bs =
     (let p = sha_pad bs in
        case foldl sha_compress sha_init (sha_blocks (length p div 64) p) of
          (a, b, c, d, e, f, g, h) \<Rightarrow>
            hex_word a @ hex_word b @ hex_word c @ hex_word d
            @ hex_word e @ hex_word f @ hex_word g @ hex_word h)"


section \<open>Content fingerprint\<close>

text \<open>\<open>content_hash\<close> of \<open>hook.py\<close>.\<close>

definition content_hash :: "pystr \<Rightarrow> pystr" where
  "content_hash text =
     (if text = [] then []
      else let normalized = py_join (u '' '') (py_split text)
           in take 16 (sha256_hexdigest (encode normalized)))"



section \<open>Change summaries\<close>

text \<open>
  \<open>compact_change_summary\<close> of \<open>hook.py\<close>. \<open>nl_to_space\<close> is \<open>.replace('\n', ' ')\<close>,
  \<open>py_strip\<close> is \<open>.strip()\<close>, and \<open>common_prefix_len\<close> is the loop over
  \<open>zip(old_flat, new_flat)\<close> that stops at the first difference.
\<close>

definition nl_to_space :: "pystr \<Rightarrow> pystr" where
  "nl_to_space s = map (\<lambda>c. if c = 10 then 32 else c) s"

definition py_strip :: "pystr \<Rightarrow> pystr" where
  "py_strip s = rev (dropWhile is_space (rev (dropWhile is_space s)))"

fun common_prefix_len :: "pystr \<Rightarrow> pystr \<Rightarrow> nat" where
  "common_prefix_len (a # as) (b # bs) = (if a = b then Suc (common_prefix_len as bs) else 0)"
| "common_prefix_len _ _ = 0"

definition MAX_LEN :: nat where
  "MAX_LEN = 200"

definition truncate_display :: "pystr \<Rightarrow> pystr" where
  "truncate_display d = (if length d > MAX_LEN then take MAX_LEN d @ [ellipsis] else d)"

definition compact_change_summary :: "pystr \<Rightarrow> pystr \<Rightarrow> pystr" where
  "compact_change_summary old_str new_str =
     (if old_str = [] \<and> new_str \<noteq> [] then
        u ''added: '' @ nl_to_space (take MAX_LEN new_str)
      else if old_str \<noteq> [] \<and> new_str = [] then
        u ''removed: '' @ nl_to_space (take MAX_LEN old_str)
      else
        (let old_flat = py_strip (nl_to_space old_str);
             new_flat = py_strip (nl_to_space new_str);
             common = common_prefix_len old_flat new_flat;
             offset = max (common - 10) 0;
             old_display = (if common > 20 then ellipsis # drop offset old_flat else old_flat);
             new_display = (if common > 20 then ellipsis # drop offset new_flat else new_flat)
         in truncate_display old_display @ u '' '' @ [arrow] @ u '' ''
            @ truncate_display new_display))"

text \<open>
  The notions the specification uses for the summary: flattening (newlines to spaces,
  then trimming), the side that is displayed for a common prefix of length \<open>k\<close>, and the
  cut to the preview bound of 200 characters.
\<close>

definition spec_flatten :: "pystr \<Rightarrow> pystr" where
  "spec_flatten s = py_strip (nl_to_space s)"

definition displayed_side :: "nat \<Rightarrow> pystr \<Rightarrow> pystr" where
  "displayed_side k f = (if k > 20 then ellipsis # drop (k - 10) f else f)"

definition cut_to_bound :: "pystr \<Rightarrow> pystr" where
  "cut_to_bound d = (if length d > 200 then take 200 d @ [ellipsis] else d)"

section \<open>Sanitizing the prompt\<close>






















section \<open>Project-relative paths\<close>

text \<open>
  \<open>relativize_path\<close> of \<open>hook.py\<close>, with \<open>Path(abs_path).relative_to(project_dir)\<close> of
  \<open>pathlib\<close> on POSIX: a path is parsed into its root (none, \<open>/\<close>, or \<open>//\<close> for exactly
  two leading slashes) and its parts (the segments between slashes that are neither empty
  nor \<open>.\<close>); \<open>relative_to\<close> succeeds when the roots agree and the parts of the project
  directory are a prefix of the parts of the path, and a path with no parts prints as
  \<open>.\<close>. Where \<open>relative_to\<close> raises \<open>ValueError\<close>, the path is returned unchanged.
\<close>

fun path_parts :: "pystr \<Rightarrow> pystr \<Rightarrow> pystr list" where
  "path_parts w [] = (if w = [] \<or> w = u ''.'' then [] else [w])"
| "path_parts w (c # cs) =
     (if c = 47 then (if w = [] \<or> w = u ''.'' then path_parts [] cs else w # path_parts [] cs)
      else path_parts (w @ [c]) cs)"

definition path_root :: "pystr \<Rightarrow> pystr" where
  "path_root s =
     (let n = length (takeWhile (\<lambda>c. c = 47) s)
      in if n = 0 then [] else if n = 2 then u ''//'' else u ''/'')"

definition relativize_path :: "pystr \<Rightarrow> pystr \<Rightarrow> pystr" where
  "relativize_path abs_path project_dir =
     (let parts = path_parts [] abs_path; to_parts = path_parts [] project_dir
      in if path_root abs_path = path_root project_dir
            \<and> take (length to_parts) parts = to_parts
         then (case drop (length to_parts) parts of
                 [] \<Rightarrow> u ''.''
               | rest \<Rightarrow> py_join (u ''/'') rest)
         else abs_path)"

section \<open>Extracting edit records\<close>

text \<open>\<open>d.get(key) or default\<close>: the value when the key is present and non-empty.\<close>

definition py_or :: "'a list option \<Rightarrow> 'a list \<Rightarrow> 'a list" where
  "py_or v d = (case v of None \<Rightarrow> d | Some x \<Rightarrow> if x = [] then d else x)"

text \<open>\<open>str(n)\<close> of an integer, as the f-string renders the line count.\<close>

function digits :: "nat \<Rightarrow> pystr" where
  "digits n = (if n < 10 then [48 + n] else digits (n div 10) @ [48 + n mod 10])"
  by pat_completeness auto
termination
  by (relation "measure id") auto

declare digits.simps [simp del]

definition py_str_int :: "int \<Rightarrow> pystr" where
  "py_str_int i = (if i < 0 then 45 # digits (nat (- i)) else digits (nat i))"

text \<open>The dictionaries that \<open>extract_edits\<close> returns.\<close>

record edit =
  ed_file :: pystr
  ed_line_start :: "int option"
  ed_line_end :: "int option"
  ed_content_hash :: pystr
  ed_change :: pystr

definition request_path :: "tool_input \<Rightarrow> pystr" where
  "request_path ti = py_or (ti_file_path ti) (get_or (ti_path ti) [])"

definition write_content :: "tool_input \<Rightarrow> pystr" where
  "write_content ti = py_or (ti_content ti) (py_or (ti_file_text ti) [])"

text \<open>
  The loop over \<open>enumerate(sub_edits)\<close> of the MultiEdit branch; \<open>i\<close> is the index of the
  sub-edit at the head of the list.
\<close>

fun multiedit_edits ::
  "pystr \<Rightarrow> pystr \<Rightarrow> patch list \<Rightarrow> nat \<Rightarrow> sub_edit list \<Rightarrow> edit list" where
  "multiedit_edits project_dir file_path patches i [] = []"
| "multiedit_edits project_dir file_path patches i (e # es) =
     (let new_str = get_or (se_new_string e) [];
          old_str = get_or (se_old_string e) [];
          (start, end') = multiedit_range patches i
      in \<lparr>ed_file = relativize_path (py_or (se_file_path e) file_path) project_dir,
          ed_line_start = start,
          ed_line_end = end',
          ed_content_hash = content_hash new_str,
          ed_change = compact_change_summary old_str new_str\<rparr>
         # multiedit_edits project_dir file_path patches (Suc i) es)"

definition extract_edits :: "event \<Rightarrow> pystr \<Rightarrow> edit list" where
  "extract_edits data project_dir =
     (let tool_name = get_or (ev_tool_name data) [];
          tool_input = get_or (ev_tool_input data) empty_input;
          tool_response = get_or (ev_tool_response data) empty_response;
          file_path = relativize_path (request_path tool_input) project_dir
      in if tool_name = u ''Edit'' then
           (let old_str = get_or (ti_old_string tool_input) [];
                new_str = get_or (ti_new_string tool_input) [];
                (line_start, line_end) = extract_line_numbers data
            in [\<lparr>ed_file = file_path,
                 ed_line_start = line_start,
                 ed_line_end = line_end,
                 ed_content_hash = content_hash new_str,
                 ed_change = compact_change_summary old_str new_str\<rparr>])
         else if tool_name = u ''Write'' then
           (let content = write_content tool_input;
                n_lines = (if content \<noteq> [] then Some (int (count_list content 10) + 1) else None)
            in [\<lparr>ed_file = file_path,
                 ed_line_start = Some 1,
                 ed_line_end = n_lines,
                 ed_content_hash = content_hash (take 500 content),
                 ed_change =
                   (case n_lines of
                      Some n \<Rightarrow> u ''created file ('' @ py_str_int n @ u '' lines)''
                    | None \<Rightarrow> u ''created file'')\<rparr>])
         else if tool_name = u ''MultiEdit'' then
           (let sub_edits = py_or (ti_edits tool_input) (py_or (ti_changes tool_input) []);
                patches = get_or (structuredPatch tool_response) []
            in multiedit_edits project_dir file_path patches 0 sub_edits)
         else
           [\<lparr>ed_file = (if file_path \<noteq> [] then file_path else u ''unknown:'' @ tool_name),
             ed_line_start = None,
             ed_line_end = None,
             ed_content_hash = [],
             ed_change = u ''unknown tool: '' @ tool_name\<rparr>])"




section \<open>The handoff slot, the session logs and the two entry points\<close>

text \<open>
  The parts of the file system that the entry points touch: whether the project is
  initialized (the directory \<open>.blamebot\<close> exists), the handoff slot
  \<open>.git/blamebot/current_prompt.json\<close>, and the session logs under \<open>.blamebot/log\<close>, keyed
  by file name; a log holds the records of its lines in order. The diagnostic log, the
  resolution of the project directory and the git author are outside the model
  (\<open>log_debug\<close>, \<open>get_project_dir\<close> and \<open>get_git_author\<close> are taken to return), and so are
  failures of the file system itself.
\<close>

record prompt_state =
  ps_prompt :: "pystr option"
  ps_prompt_raw :: "pystr option"
  ps_timestamp :: "pystr option"
  ps_session_file :: "pystr option"
  ps_author :: "pystr option"
  ps_session_id :: "pystr option"
  ps_transcript_path :: "pystr option"

text \<open>
  The slot is absent, holds something \<open>json.load\<close> rejects, or holds a stored state.
\<close>

datatype slot = Absent | Unreadable | Stored prompt_state

record log_record =
  lr_ts :: pystr
  lr_file :: pystr
  lr_lines :: "int option \<times> int option"
  lr_content_hash :: pystr
  lr_prompt :: pystr
  lr_reason :: pystr
  lr_change :: pystr
  lr_tool :: pystr
  lr_author :: pystr
  lr_session :: pystr
  lr_trace :: pystr

record fs =
  initialized :: bool
  handoff :: slot
  logs :: "pystr \<rightharpoonup> log_record list"

text \<open>
  What an invocation reads from its surroundings: the local time, the six picks of
  \<open>random.choices\<close> (the pick of index \<open>i\<close> selects a character of the 36-letter
  alphabet), and the result of \<open>get_git_author\<close>.
\<close>

record clock =
  year :: nat
  month :: nat
  day :: nat
  hour :: nat
  minute :: nat
  second :: nat

record env =
  env_clock :: clock
  env_picks :: "nat \<Rightarrow> nat"
  env_git_author :: pystr

definition pad2 :: "nat \<Rightarrow> pystr" where
  "pad2 n = (if n < 10 then 48 # digits n else digits n)"

text \<open>\<open>time.strftime("%Y%m%dT%H%M%SZ")\<close> and \<open>time.strftime("%Y-%m-%dT%H:%M:%SZ")\<close>.\<close>

definition strftime_compact :: "clock \<Rightarrow> pystr" where
  "strftime_compact t =
     digits (year t) @ pad2 (month t) @ pad2 (day t) @ u ''T''
     @ pad2 (hour t) @ pad2 (minute t) @ pad2 (second t) @ u ''Z''"

definition strftime_iso :: "clock \<Rightarrow> pystr" where
  "strftime_iso t =
     digits (year t) @ u ''-'' @ pad2 (month t) @ u ''-'' @ pad2 (day t) @ u ''T''
     @ pad2 (hour t) @ u '':'' @ pad2 (minute t) @ u '':'' @ pad2 (second t) @ u ''Z''"

definition alphabet :: pystr where
  "alphabet = u ''abcdefghijklmnopqrstuvwxyz0123456789''"

definition rand_suffix :: "(nat \<Rightarrow> nat) \<Rightarrow> pystr" where
  "rand_suffix picks = map (\<lambda>i. alphabet ! (picks i mod 36)) [0..<6]"


definition orphan_file_name :: "env \<Rightarrow> pystr" where
  "orphan_file_name e =
     strftime_compact (env_clock e) @ u ''-'' @ rand_suffix (env_picks e)
     @ u ''-orphan.jsonl''"

text \<open>
  Standard input: text that \<open>json.loads\<close> rejects, or a payload (blank input is the
  payload without keys).
\<close>

datatype 'a stdin = Unparseable | Payload 'a



definition empty_state :: prompt_state where
  "empty_state = \<lparr>ps_prompt = None, ps_prompt_raw = None, ps_timestamp = None,
     ps_session_file = None, ps_author = None, ps_session_id = None,
     ps_transcript_path = None\<rparr>"


text \<open>
  The part of \<open>main\<close> of \<open>hook.py\<close> that loads the stashed prompt state: an absent or
  unreadable slot leaves the empty dictionary.
\<close>

definition load_prompt_state :: "slot \<Rightarrow> prompt_state" where
  "load_prompt_state sl = (case sl of Stored st \<Rightarrow> st | _ \<Rightarrow> empty_state)"

definition session_target :: "env \<Rightarrow> prompt_state \<Rightarrow> pystr" where
  "session_target e prompt_state =
     (case ps_session_file prompt_state of
        None \<Rightarrow> orphan_file_name e
      | Some f \<Rightarrow> if f = [] then orphan_file_name e else f)"

definition make_record ::
  "env \<Rightarrow> event \<Rightarrow> prompt_state \<Rightarrow> edit \<Rightarrow> log_record" where
  "make_record e data prompt_state ed =
     (let transcript_path =
            py_or (ev_transcript_path data) (py_or (ps_transcript_path prompt_state) []);
          tool_use_id = get_or (ev_tool_use_id data) [];
          trace_ref = (if tool_use_id \<noteq> [] then transcript_path @ u ''#'' @ tool_use_id
                       else transcript_path);
          session_id = py_or (ev_session_id data) (py_or (ps_session_id prompt_state) [])
      in \<lparr>lr_ts = strftime_iso (env_clock e),
          lr_file = ed_file ed,
          lr_lines = (ed_line_start ed, ed_line_end ed),
          lr_content_hash = ed_content_hash ed,
          lr_prompt = get_or (ps_prompt prompt_state) [],
          lr_reason = [],
          lr_change = ed_change ed,
          lr_tool = get_or (ev_tool_name data) [],
          lr_author = get_or (ps_author prompt_state) (u ''unknown''),
          lr_session = session_id,
          lr_trace = trace_ref\<rparr>)"

text \<open>
  Opening a file in mode \<open>a\<close> creates it when it is absent and leaves what it holds;
  every write goes to its end.
\<close>

definition append_lines ::
  "pystr \<Rightarrow> log_record list \<Rightarrow> (pystr \<rightharpoonup> log_record list) \<Rightarrow> (pystr \<rightharpoonup> log_record list)"
  where
  "append_lines name recs m = m(name \<mapsto> get_or (m name) [] @ recs)"

text \<open>\<open>main\<close> of \<open>hook.py\<close>.\<close>

definition hook_main :: "env \<Rightarrow> event stdin \<Rightarrow> pystr \<Rightarrow> fs \<Rightarrow> fs" where
  "hook_main e input project_dir s =
     (if \<not> initialized s then s
      else
        (case input of
           Unparseable \<Rightarrow> s
         | Payload data \<Rightarrow>
             (let prompt_state = load_prompt_state (handoff s);
                  session_filename = session_target e prompt_state;
                  edits = extract_edits data project_dir
              in s\<lparr>logs := append_lines session_filename
                     (map (make_record e data prompt_state) edits) (logs s)\<rparr>)))"


text \<open>Surroundings, payloads and a file system used as examples.\<close>

definition example_env :: env where
  "example_env = \<lparr>env_clock = \<lparr>year = 2025, month = 3, day = 9, hour = 14, minute = 5,
     second = 0\<rparr>, env_picks = (\<lambda>i. 7 * i), env_git_author = u ''dev''\<rparr>"


definition example_edit :: event where
  "example_edit = \<lparr>ev_tool_name = Some (u ''Edit''),
     ev_tool_input = Some (empty_input\<lparr>ti_file_path := Some (u ''/p/src/a.py''),
        ti_old_string := Some (u ''x = 1''), ti_new_string := Some (u ''x = 2'')\<rparr>),
     ev_tool_response = None, ev_transcript_path = None, ev_tool_use_id = None,
     ev_session_id = None\<rparr>"


definition example_record :: log_record where
  "example_record = \<lparr>lr_ts = u ''2025-03-09T14:00:00Z'', lr_file = u ''src/b.py'',
     lr_lines = (Some 1, Some 2), lr_content_hash = [], lr_prompt = u ''earlier'',
     lr_reason = [], lr_change = u ''created file'', lr_tool = u ''Write'',
     lr_author = u ''dev'', lr_session = [], lr_trace = []\<rparr>"

definition example_logged_fs :: fs where
  "example_logged_fs = \<lparr>initialized = True,
     handoff = Stored (empty_state\<lparr>ps_session_file := Some (u ''old.jsonl'')\<rparr>),
     logs = [u ''old.jsonl'' \<mapsto> [example_record]]\<rparr>"

section \<open>Properties of the line ranges\<close>

lemma extract_line_numbers_patches:
  "extract_line_numbers (data\<lparr>ev_tool_response := Some \<lparr>structuredPatch = Some ps\<rparr>\<rparr>) =
     (case ps of
        [] \<Rightarrow> (None, None)
      | p # _ \<Rightarrow>
          (case newStart p of
             Some start \<Rightarrow> (Some start, Some (start + max (get_or (newLines p) 0 - 1) 0))
           | None \<Rightarrow> (None, None)))"
  by (simp add: extract_line_numbers_def get_or_def)

text \<open>
  C3 (as the code has it): an empty structured-patch list resolves to (null, null); a
  first descriptor with start 10 and 5 lines resolves to (10, 14); and a first
  descriptor with start 10 and 0 lines resolves to (10, 10), because the line count
  minus one is clamped at 0.
\<close>

theorem extract_line_numbers_examples:
  "extract_line_numbers (patch_event []) = (None, None)
   \<and> extract_line_numbers
         (patch_event (\<lparr>newStart = Some 10, newLines = Some 5\<rparr> # ps)) = (Some 10, Some 14)
   \<and> extract_line_numbers
         (patch_event (\<lparr>newStart = Some 10, newLines = Some 0\<rparr> # ps)) = (Some 10, Some 10)"
  by (simp add: extract_line_numbers_def patch_event_def get_or_def)

text \<open>
  C3 as stated fails: for start 10 and 0 lines the resolver does not return (10, 9).
\<close>

theorem extract_line_numbers_zero_lines_counterexample:
  "extract_line_numbers (patch_event [\<lparr>newStart = Some 10, newLines = Some 0\<rparr>])
     \<noteq> (Some 10, Some 9)"
  by (simp add: extract_line_numbers_def patch_event_def get_or_def)

text \<open>
  C10: on every structured-patch descriptor the range computed inline by the MultiEdit
  branch equals the range computed by the Edit branch's resolver; with start \<open>s\<close> and
  line count \<open>n\<close> both are \<open>(s, s + max (n - 1) 0)\<close>, and with the count absent both
  are \<open>(s, s)\<close>, although the defaults of the two paths differ (1 and 0).
\<close>

theorem multiedit_range_equals_extract_line_numbers:
  "multiedit_range (qs @ p # ps) (length qs) = extract_line_numbers (patch_event (p # rs))
   \<and> multiedit_range (\<lparr>newStart = Some s, newLines = Some n\<rparr> # ps) 0
       = (Some s, Some (s + max (n - 1) 0))
   \<and> extract_line_numbers (patch_event (\<lparr>newStart = Some s, newLines = Some n\<rparr> # ps))
       = (Some s, Some (s + max (n - 1) 0))
   \<and> multiedit_range (\<lparr>newStart = Some s, newLines = None\<rparr> # ps) 0 = (Some s, Some s)
   \<and> extract_line_numbers (patch_event (\<lparr>newStart = Some s, newLines = None\<rparr> # ps))
       = (Some s, Some s)
   \<and> multiedit_range (\<lparr>newStart = None, newLines = m\<rparr> # ps) 0 = (None, None)
   \<and> extract_line_numbers (patch_event (\<lparr>newStart = None, newLines = m\<rparr> # ps))
       = (None, None)"
proof -
  have eq: "max (get_or (newLines p) 1 - 1) 0 = max (get_or (newLines p) 0 - 1) (0::int)"
    by (cases "newLines p") (simp_all add: get_or_def)
  have "multiedit_range (qs @ p # ps) (length qs) = extract_line_numbers (patch_event (p # rs))"
    by (cases "newStart p")
       (simp_all add: multiedit_range_def extract_line_numbers_def patch_event_def eq,
        simp_all add: get_or_def)
  then show ?thesis
    by (simp add: multiedit_range_def extract_line_numbers_def patch_event_def get_or_def)
qed

section \<open>Properties of the content fingerprint\<close>













section \<open>Properties of the change summary\<close>

lemma common_prefix_len_eq: "common_prefix_len xs ys = length (longest_common_prefix xs ys)"
  by (induction xs ys rule: common_prefix_len.induct) simp_all

lemma cut_short: "length f < 200 \<Longrightarrow> cut_to_bound (displayed_side k f) = displayed_side k f"
  by (auto simp: cut_to_bound_def displayed_side_def)

text \<open>
  C6 (as the code has it): with the preview bound 200, the summary is \<open>added:\<close> plus the
  first 200 characters of the new text with newlines replaced by spaces (not trimmed)
  when the old text is empty and the new one is not; \<open>removed:\<close> plus the same of the old
  text in the converse case; and otherwise the two displayed sides joined by an arrow,
  where a side is the flattened text or, when the position-wise common prefix of the
  flattened texts is longer than 20, an ellipsis followed by the flattened text from
  position \<open>k - 10\<close>, each side cut to 200 characters plus an ellipsis when it is longer.
  A side whose flattened form is shorter than 200 is never cut.
\<close>

theorem compact_change_summary_cases:
  "(old = [] \<and> new \<noteq> [] \<longrightarrow>
      compact_change_summary old new = u ''added: '' @ take 200 (nl_to_space new))
   \<and> (old \<noteq> [] \<and> new = [] \<longrightarrow>
      compact_change_summary old new = u ''removed: '' @ take 200 (nl_to_space old))
   \<and> ((old = [] \<longleftrightarrow> new = []) \<longrightarrow>
      compact_change_summary old new =
        cut_to_bound (displayed_side
          (length (longest_common_prefix (spec_flatten old) (spec_flatten new))) (spec_flatten old))
        @ u '' '' @ [arrow] @ u '' '' @
        cut_to_bound (displayed_side
          (length (longest_common_prefix (spec_flatten old) (spec_flatten new))) (spec_flatten new)))
   \<and> (length f < 200 \<longrightarrow> cut_to_bound (displayed_side k f) = displayed_side k f)"
  using cut_short [of f k]
  by (simp add: compact_change_summary_def MAX_LEN_def nl_to_space_def take_map Let_def
      common_prefix_len_eq spec_flatten_def truncate_display_def cut_to_bound_def
      displayed_side_def)

theorem compact_change_summary_cases_witness:
  "compact_change_summary [] (u ''hello'') = u ''added: hello''
   \<and> compact_change_summary (u ''hello'') [] = u ''removed: hello''
   \<and> compact_change_summary (u ''abcdefghijklmnopqrstuvwxyz0123X1'')
                              (u ''abcdefghijklmnopqrstuvwxyz0123Y2'')
       = [ellipsis] @ u ''uvwxyz0123X1 '' @ [arrow] @ u '' '' @ [ellipsis] @ u ''uvwxyz0123Y2''
   \<and> cut_to_bound (displayed_side 30 (u ''abcdefghijklmnopqrstuvwxyz0123X1''))
       = [ellipsis] @ u ''uvwxyz0123X1''"
  using compact_change_summary_cases [of "[]" "u ''hello''" "[]" 0]
    compact_change_summary_cases [of "u ''hello''" "[]" "[]" 0]
    compact_change_summary_cases [of "u ''abcdefghijklmnopqrstuvwxyz0123X1''"
      "u ''abcdefghijklmnopqrstuvwxyz0123Y2''" "u ''abcdefghijklmnopqrstuvwxyz0123X1''" 30]
  by (simp add: u_def nl_to_space_def spec_flatten_def py_strip_def is_space_def
      displayed_side_def cut_to_bound_def)

text \<open>
  C6 as stated fails whichever way flattening is read. If it includes trimming, the
  \<open>added:\<close> branch does not trim. If it does not, the general branch does trim, and the
  \<open>added:\<close> branch keeps only the first 200 characters.
\<close>

theorem compact_change_summary_flatten_counterexample:
  "compact_change_summary [] (u '' x'') \<noteq> u ''added: '' @ spec_flatten (u '' x'')
   \<and> compact_change_summary (u '' a'') (u ''b'')
       \<noteq> nl_to_space (u '' a'') @ u '' '' @ [arrow] @ u '' '' @ nl_to_space (u ''b'')
   \<and> compact_change_summary [] (replicate 201 97)
       \<noteq> u ''added: '' @ nl_to_space (replicate 201 97)"
  by (simp add: compact_change_summary_def MAX_LEN_def nl_to_space_def u_def spec_flatten_def
      py_strip_def is_space_def truncate_display_def)

section \<open>Properties of the sanitizer\<close>











































section \<open>Properties of the extracted records\<close>











section \<open>Properties of the entry points\<close>







lemma hook_main_logs:
  "initialized s \<Longrightarrow>
   logs (hook_main e (Payload data) project_dir s) =
     append_lines (session_target e (load_prompt_state (handoff s)))
       (map (make_record e data (load_prompt_state (handoff s)))
          (extract_edits data project_dir))
       (logs s)"
  by (simp add: hook_main_def Let_def)

lemma hook_main_handoff: "handoff (hook_main e input project_dir s) = handoff s"
  by (cases input) (simp_all add: hook_main_def Let_def)

lemma hook_main_initialized: "initialized (hook_main e input project_dir s) = initialized s"
  by (cases input) (simp_all add: hook_main_def Let_def)







text \<open>
  C7: the tool-event entry point never changes the handoff slot, and whatever a log held
  before is a prefix of what it holds afterwards.
\<close>

theorem hook_main_frame:
  "handoff (hook_main e input project_dir s) = handoff s
   \<and> (logs s name = Some old \<longrightarrow>
        (\<exists>new. logs (hook_main e input project_dir s) name = Some (old @ new)))"
proof (cases "initialized s")
  case False
  then show ?thesis by (simp add: hook_main_def)
next
  case True
  show ?thesis
  proof (cases input)
    case Unparseable
    then show ?thesis by (simp add: hook_main_def)
  next
    case (Payload data)
    show ?thesis
      unfolding Payload
      using hook_main_logs [OF True, of e data project_dir]
        hook_main_handoff [of e "Payload data" project_dir s]
      by (auto simp: append_lines_def get_or_def)
  qed
qed

theorem hook_main_frame_witness:
  "logs example_logged_fs (u ''old.jsonl'') = Some [example_record]
   \<and> handoff (hook_main example_env (Payload example_edit) (u ''/p'') example_logged_fs)
       = handoff example_logged_fs
   \<and> (\<exists>new. logs (hook_main example_env (Payload example_edit) (u ''/p'') example_logged_fs)
               (u ''old.jsonl'') = Some ([example_record] @ new))"
proof -
  have o: "logs example_logged_fs (u ''old.jsonl'') = Some [example_record]"
    by (simp add: example_logged_fs_def)
  show ?thesis
    using hook_main_frame [of example_env "Payload example_edit" "u ''/p''" example_logged_fs
        "u ''old.jsonl''" "[example_record]"] o
    by blast
qed

end
